theory Spec2Isabelle
  imports Complex_Main "HOL-Library.Word" "HOL-Library.AList" "HOL-Library.Log_Nat"
begin

unbundle bit_operations_syntax

section \<open>Python strings\<close>

text \<open>
  A Python \<open>str\<close> is modelled as a \<open>string\<close> whose characters are read as the code
  points U+0000 to U+00FF. On this range the whitespace of \<open>str.strip()\<close>, of
  \<open>str.isspace()\<close> and of the regular expression class \<open>\s\<close> is the same set of
  twelve characters, the decimal digits of \<open>\d\<close> are \<open>0\<close> to \<open>9\<close>, and
  \<open>str.lower()\<close> maps one character to one character.
\<close>

definition is_space :: "char \<Rightarrow> bool" where
  "is_space c \<longleftrightarrow> of_char c \<in> {9, 10, 11, 12, 13, 28, 29, 30, 31, 32, 133, 160 :: nat}"

definition is_digit :: "char \<Rightarrow> bool" where
  "is_digit c \<longleftrightarrow> (48 :: nat) \<le> of_char c \<and> of_char c \<le> (57 :: nat)"

text \<open>\<open>s.strip()\<close>: leading and trailing whitespace removed.\<close>

definition py_strip :: "string \<Rightarrow> string" where
  "py_strip s = rev (dropWhile is_space (rev (dropWhile is_space s)))"

text \<open>\<open>s.lower()\<close>: A to Z and the Latin-1 capitals U+00C0 to U+00DE (U+00D7, the
  multiplication sign, apart) move up by 32.\<close>

definition lower_char :: "char \<Rightarrow> char" where
  "lower_char c =
     (let n = (of_char c :: nat)
      in if (65 \<le> n \<and> n \<le> 90) \<or> (192 \<le> n \<and> n \<le> 222 \<and> n \<noteq> 215)
         then char_of (n + 32) else c)"

definition py_lower :: "string \<Rightarrow> string" where
  "py_lower s = map lower_char s"

text \<open>\<open>re.sub(r"\s+", " ", s)\<close>: every maximal run of whitespace becomes one space.
  The flag says whether the previous character belonged to a run already replaced.\<close>

fun sub_ws :: "bool \<Rightarrow> string \<Rightarrow> string" where
  "sub_ws in_run [] = []"
| "sub_ws in_run (c # cs) =
     (if is_space c then (if in_run then sub_ws True cs else CHR '' '' # sub_ws True cs)
      else c # sub_ws False cs)"



text \<open>\<open>sep.join(xs)\<close>.\<close>

fun join :: "string \<Rightarrow> string list \<Rightarrow> string" where
  "join sep [] = []"
| "join sep [x] = x"
| "join sep (x # y # ys) = x @ sep @ join sep (y # ys)"

text \<open>\<open>str(n)\<close> for an integer: decimal digits, a minus sign when negative.\<close>

definition digit_char :: "int \<Rightarrow> char" where
  "digit_char d = char_of (48 + d)"

function decimal :: "int \<Rightarrow> string" where
  "decimal n = (if n < 10 then [digit_char n] else decimal (n div 10) @ [digit_char (n mod 10)])"
  by pat_completeness auto
termination
  by (relation "measure nat") auto

declare decimal.simps [simp del]

definition show_int :: "int \<Rightarrow> string" where
  "show_int i = (if i < 0 then CHR ''-'' # decimal (- i) else decimal i)"

section \<open>Python values\<close>

text \<open>A \<open>datetime.date\<close>; \<open>str(d)\<close> is its ISO form, zero padded.\<close>

datatype date = Date (year: nat) (month: nat) (day: nat)

definition zero_pad :: "nat \<Rightarrow> string \<Rightarrow> string" where
  "zero_pad n s = replicate (n - length s) CHR ''0'' @ s"

definition isoformat :: "date \<Rightarrow> string" where
  "isoformat d = zero_pad 4 (decimal (int (year d))) @ ''-'' @ zero_pad 2 (decimal (int (month d)))
                 @ ''-'' @ zero_pad 2 (decimal (int (day d)))"

text \<open>The value of a Python \<open>float\<close>: a rational, an infinity or not-a-number.\<close>

datatype pyfloat = Finite rat | PosInf | NegInf | NaN

text \<open>A \<open>float\<close> object is an IEEE 754 binary64 word: sign bit, eleven exponent bits,
  fifty-two fraction bits. Every word is a float, so the model has no ill-formed one.\<close>

definition float_val :: "64 word \<Rightarrow> pyfloat" where
  "float_val w =
     (let neg = bit w 63;
          ex = uint (drop_bit 52 w AND 0x7FF);
          fr = uint (w AND 0xFFFFFFFFFFFFF)
      in if ex = 2047
         then (if fr = 0 then (if neg then NegInf else PosInf) else NaN)
         else
           (let mag = (if ex = 0 then of_int fr * 2 powi (- 1074)
                       else of_int (2 ^ 52 + fr) * 2 powi (ex - 1075))
            in Finite (if neg then - mag else mag)))"

text \<open>The values a cell of a row, a field of a record or a form input can hold:
  \<open>None\<close>, a \<open>str\<close>, an \<open>int\<close>, a \<open>float\<close> (NaN included) and a \<open>date\<close>.\<close>

datatype pyval = PNone | PStr string | PInt int | PFloat "64 word" | PDate date

text \<open>\<open>pd.isna(x)\<close> on these scalars: \<open>None\<close> and NaN.\<close>

definition pd_isna :: "pyval \<Rightarrow> bool" where
  "pd_isna x = (case x of PNone \<Rightarrow> True | PFloat w \<Rightarrow> float_val w = NaN | _ \<Rightarrow> False)"

text \<open>Truthiness, as \<open>not x\<close> and \<open>if x\<close> test it.\<close>

definition truthy :: "pyval \<Rightarrow> bool" where
  "truthy x =
     (case x of
        PNone \<Rightarrow> False
      | PStr s \<Rightarrow> s \<noteq> []
      | PInt n \<Rightarrow> n \<noteq> 0
      | PFloat w \<Rightarrow> float_val w \<noteq> Finite 0
      | PDate d \<Rightarrow> True)"

text \<open>\<open>str(x)\<close>. The decimal rendering of a finite float (its shortest repr) is the
  parameter \<open>fr\<close>: no function below depends on what it is.\<close>

definition py_str :: "(64 word \<Rightarrow> string) \<Rightarrow> pyval \<Rightarrow> string" where
  "py_str fr x =
     (case x of
        PNone \<Rightarrow> ''None''
      | PStr s \<Rightarrow> s
      | PInt n \<Rightarrow> show_int n
      | PFloat w \<Rightarrow>
          (case float_val w of
             NaN \<Rightarrow> ''nan'' | PosInf \<Rightarrow> ''inf'' | NegInf \<Rightarrow> ''-inf'' | Finite r \<Rightarrow> fr w)
      | PDate d \<Rightarrow> isoformat d)"

section \<open>Dictionaries\<close>

text \<open>A \<open>dict\<close> keeps its keys in insertion order: an association list, read with
  \<open>d.get(k)\<close> (\<open>None\<close> for a missing key) and written with \<open>d[k] = v\<close> (in place
  for a key that exists, at the end for a new one).\<close>

type_synonym pydict = "(string \<times> pyval) list"

definition dict_get :: "pydict \<Rightarrow> string \<Rightarrow> pyval" where
  "dict_get d k = (case map_of d k of None \<Rightarrow> PNone | Some v \<Rightarrow> v)"

definition dict_set :: "string \<Rightarrow> pyval \<Rightarrow> pydict \<Rightarrow> pydict" where
  "dict_set k v d = AList.update k v d"

definition dict_keys :: "pydict \<Rightarrow> string list" where
  "dict_keys d = map fst d"

section \<open>Floats: rounding, \<open>float(x)\<close> and \<open>int(x)\<close>\<close>

text \<open>\<open>ilog2 v\<close> is the binary exponent of a positive rational: the integer \<open>e\<close> with
  \<open>2 ^ e \<le> v < 2 ^ (e + 1)\<close>, found from the bit lengths of numerator and denominator.\<close>

definition ilog2 :: "rat \<Rightarrow> int" where
  "ilog2 v =
     (let (p, q) = quotient_of v; b = bitlen p - bitlen q
      in if 2 powi b \<le> v then b else b - 1)"

definition round_half_even :: "rat \<Rightarrow> int" where
  "round_half_even x =
     (let f = \<lfloor>x\<rfloor>; d = x - of_int f
      in if d < 1 / 2 then f else if 1 / 2 < d then f + 1 else if even f then f else f + 1)"

text \<open>Rounding a rational to the nearest binary64 value, ties to even: 53 significant
  bits, the quantum never below \<open>2 ^ -1074\<close> (subnormals), and an infinity from
  \<open>2 ^ 1024\<close> on. This is how \<open>float\<close> reads a decimal string and converts an \<open>int\<close>.\<close>

definition round64 :: "rat \<Rightarrow> pyfloat" where
  "round64 v =
     (if v = 0 then Finite 0
      else
        (let a = \<bar>v\<bar>;
             e = max (ilog2 a) (- 1022);
             q = 2 powi (e - 52);
             r = of_int (round_half_even (a / q)) * q
         in if 2 ^ 1024 \<le> r then (if v < 0 then NegInf else PosInf)
            else Finite (if v < 0 then - r else r)))"

text \<open>The whitespace \<open>float\<close> and \<open>int\<close> skip around a numeric string: the ASCII
  whitespace and, turned into spaces first, U+0085 and U+00A0. The separators U+001C to
  U+001F, which \<open>str.strip()\<close> removes, are not skipped.\<close>

definition is_fspace :: "char \<Rightarrow> bool" where
  "is_fspace c \<longleftrightarrow> of_char c \<in> {9, 10, 11, 12, 13, 32, 133, 160 :: nat}"

definition num_strip :: "string \<Rightarrow> string" where
  "num_strip s = rev (dropWhile is_fspace (rev (dropWhile is_fspace s)))"

definition digits_val :: "string \<Rightarrow> int" where
  "digits_val ds = foldl (\<lambda>a c. 10 * a + (of_char c - 48)) 0 ds"

text \<open>\<open>digitpart ::= digit (["_"] digit)*\<close>: after a digit, more digits, each
  optionally preceded by one underscore. The result is the digits read and the rest.\<close>

fun more_digits :: "string \<Rightarrow> string \<times> string" where
  "more_digits [] = ([], [])"
| "more_digits [c] = (if is_digit c then ([c], []) else ([], [c]))"
| "more_digits (c # d # cs) =
     (if is_digit c then (let (ds, r) = more_digits (d # cs) in (c # ds, r))
      else if c = CHR ''_'' \<and> is_digit d then (let (ds, r) = more_digits cs in (d # ds, r))
      else ([], c # d # cs))"

definition digitpart :: "string \<Rightarrow> string \<times> string" where
  "digitpart s =
     (case s of
        [] \<Rightarrow> ([], [])
      | c # cs \<Rightarrow> if is_digit c then (let (ds, r) = more_digits cs in (c # ds, r)) else ([], s))"

definition sign :: "string \<Rightarrow> bool \<times> string" where
  "sign s =
     (case s of
        [] \<Rightarrow> (False, [])
      | c # cs \<Rightarrow> if c = CHR ''-'' then (True, cs) else if c = CHR ''+'' then (False, cs) else (False, s))"

text \<open>\<open>floatnumber ::= number [exponent]\<close> with
  \<open>number ::= [digitpart] "." digitpart | digitpart ["."]\<close> and
  \<open>exponent ::= ("e" | "E") [sign] digitpart\<close>: the integer digits, the fraction digits
  and the exponent, or \<open>None\<close> when the string is no such number.\<close>

definition floatnumber :: "string \<Rightarrow> (string \<times> string \<times> int) option" where
  "floatnumber s =
     (let (ip, r1) = digitpart s;
          (fp, r2) = (case r1 of [] \<Rightarrow> ([], r1)
                      | c # r \<Rightarrow> if c = CHR ''.'' then digitpart r else ([], r1))
      in if ip = [] \<and> fp = [] then None
         else
           (case r2 of
              [] \<Rightarrow> Some (ip, fp, 0)
            | c # r3 \<Rightarrow>
                if c = CHR ''e'' \<or> c = CHR ''E''
                then (let (neg, r4) = sign r3; (ed, r5) = digitpart r4
                      in if ed \<noteq> [] \<and> r5 = []
                         then Some (ip, fp, if neg then - digits_val ed else digits_val ed)
                         else None)
                else None))"

text \<open>\<open>float(s)\<close> for a string: whitespace skipped, an optional sign, then
  \<open>inf\<close>, \<open>infinity\<close> or \<open>nan\<close> in any case, or a decimal number, which is rounded.
  \<open>None\<close> is the \<open>ValueError\<close>.\<close>

definition parse_float :: "string \<Rightarrow> pyfloat option" where
  "parse_float s =
     (let (neg, body) = sign (num_strip s); l = py_lower body
      in if l = ''inf'' \<or> l = ''infinity'' then Some (if neg then NegInf else PosInf)
         else if l = ''nan'' then Some NaN
         else
           (case floatnumber body of
              None \<Rightarrow> None
            | Some (ip, fp, e) \<Rightarrow>
                (let v = of_int (digits_val (ip @ fp)) * 10 powi (e - int (length fp))
                 in Some (round64 (if neg then - v else v)))))"


text \<open>\<open>float(x)\<close>: \<open>TypeError\<close> for \<open>None\<close> and a date, \<open>ValueError\<close> for a string
  that is no number, \<open>OverflowError\<close> for an \<open>int\<close> that rounds beyond the largest
  float.\<close>

definition py_float :: "pyval \<Rightarrow> pyfloat option" where
  "py_float x =
     (case x of
        PNone \<Rightarrow> None
      | PStr s \<Rightarrow> parse_float s
      | PInt n \<Rightarrow> (case round64 (of_int n) of Finite r \<Rightarrow> Some (Finite r) | _ \<Rightarrow> None)
      | PFloat w \<Rightarrow> Some (float_val w)
      | PDate d \<Rightarrow> None)"

text \<open>\<open>int(f)\<close> for a float: truncation towards zero; \<open>OverflowError\<close> for an infinity,
  \<open>ValueError\<close> for NaN.\<close>

definition trunc_int :: "rat \<Rightarrow> int" where
  "trunc_int r = (if 0 \<le> r then \<lfloor>r\<rfloor> else \<lceil>r\<rceil>)"

definition int_of_float :: "pyfloat \<Rightarrow> int option" where
  "int_of_float f = (case f of Finite r \<Rightarrow> Some (trunc_int r) | _ \<Rightarrow> None)"


text \<open>\<open>int(float(x))\<close>, the expression both normalizers try.\<close>

definition int_float :: "pyval \<Rightarrow> int option" where
  "int_float x = (case py_float x of None \<Rightarrow> None | Some f \<Rightarrow> int_of_float f)"

section \<open>Field Normalizer (app.py)\<close>


section \<open>Record Mapper (\<open>set_form_state_from_row\<close> of app.py)\<close>


text \<open>The letters with an acute accent the source's strings use.\<close>

abbreviation a_i :: char where "a_i \<equiv> CHR 0xED"
















section \<open>History Store Gateway (db_it_pei.py)\<close>

text \<open>Exceptions the gateway raises itself: \<open>ValueError(message)\<close> from the insert,
  and the not-found failure of the update.\<close>

datatype error = ValueError string | NotFoundError

text \<open>\<open>_clean_str\<close>: \<open>None\<close> for \<open>None\<close> and for a string that is empty once
  trimmed.\<close>

definition clean_str :: "(64 word \<Rightarrow> string) \<Rightarrow> pyval \<Rightarrow> string option" where
  "clean_str fr x =
     (if x = PNone then None
      else (let s = py_strip (py_str fr x) in if s \<noteq> [] then Some s else None))"

text \<open>\<open>_to_int\<close>.\<close>

definition to_int :: "pyval \<Rightarrow> int option" where
  "to_int x =
     (if x = PNone \<or> (case x of PFloat w \<Rightarrow> pd_isna x | _ \<Rightarrow> False) then None
      else int_float x)"

definition of_str :: "string option \<Rightarrow> pyval" where
  "of_str s = (case s of None \<Rightarrow> PNone | Some x \<Rightarrow> PStr x)"

definition of_int_opt :: "int option \<Rightarrow> pyval" where
  "of_int_opt n = (case n of None \<Rightarrow> PNone | Some x \<Rightarrow> PInt x)"

text \<open>The statement \<open>insert_it_pei\<close> hands to \<open>conn.execute\<close>: the column list and
  the parameter list of its text, and the bound parameters.\<close>

datatype statement = InsertInto (col_list: string) (param_list: string) (params: pydict)

definition required :: "string list" where
  "required = [''id_ue'', ''fecha_recepcion'']"

definition missing :: "pydict \<Rightarrow> string list" where
  "missing rcd = filter (\<lambda>k. \<not> truthy (dict_get rcd k)) required"

text \<open>\<open>insert_it_pei\<close> (lines 41 to 63): the \<open>ValueError\<close> it raises, or the statement it
  executes.\<close>

definition insert_it_pei :: "(64 word \<Rightarrow> string) \<Rightarrow> pydict \<Rightarrow> error + statement" where
  "insert_it_pei fr rcd =
     (if missing rcd \<noteq> []
      then Inl (ValueError (''Faltan campos obligatorios: '' @ join '', '' (missing rcd)))
      else
        (let r1 = dict_set ''id_ue'' (of_str (clean_str fr (dict_get rcd ''id_ue''))) rcd;
             r2 = dict_set ''anio'' (of_int_opt (to_int (dict_get r1 ''anio''))) r1;
             r3 = dict_set ''cantidad_revisiones''
                    (of_int_opt (to_int (dict_get r2 ''cantidad_revisiones''))) r2;
             cols = dict_keys r3
         in Inr (InsertInto (join '', '' cols) (join '', '' (map (\<lambda>c. CHR '':'' # c) cols)) r3)))"

text \<open>Modelled from the spec: \<open>update_it_pei\<close>, which app.py calls at line 697 and
  neither source file defines. The spec (4.3): "applies only the fields present in
  changeset to the row with matching identifier ... Fails with NotFoundError if no row
  matches." The table maps an identifier to its row, a row maps a column to its value.\<close>

type_synonym table = "int \<rightharpoonup> (string \<rightharpoonup> pyval)"

definition update_it_pei :: "int \<Rightarrow> pydict \<Rightarrow> table \<Rightarrow> error + table" where
  "update_it_pei i changeset tbl =
     (case tbl i of
        None \<Rightarrow> Inl NotFoundError
      | Some r \<Rightarrow> Inr (tbl(i \<mapsto> r ++ map_of changeset)))"

section \<open>Form Reconciler (the submit handler of app.py)\<close>

text \<open>The values the form's widgets return. Text inputs and select boxes over a fixed
  list give a \<open>str\<close>; the articulation select box gives \<open>None\<close> when the unit's
  government level has no options; date inputs give a date or \<open>None\<close>; the number
  input gives an \<open>int\<close>.\<close>

record widgets =
  w_tipo_pei :: string
  w_etapa_revision :: string
  w_fecha_recepcion :: "date option"
  w_articulacion :: "string option"
  w_fecha_derivacion :: "date option"
  w_periodo :: string
  w_cantidad_revisiones :: int
  w_comentario :: string
  w_vigencia :: string
  w_estado :: string
  w_expediente :: string
  w_fecha_it :: "date option"
  w_fecha_oficio :: "date option"
  w_numero_it :: string
  w_numero_oficio :: string

text \<open>What the handler reads besides the widgets: the edit flags of the session, the
  selected unit code, the selected responsible party, the session's user and the year.\<close>

record session =
  edit_mode :: bool
  edit_id :: "int option"
  codigo :: string
  resp_sel :: string
  usuario :: pyval
  year_now :: int

definition of_date :: "date option \<Rightarrow> pyval" where
  "of_date d = (case d of None \<Rightarrow> PNone | Some x \<Rightarrow> PDate x)"

text \<open>\<open>re.match(r"^\d{4}-\d{4}$", periodo)\<close>. \<open>$\<close> also matches before one final
  newline.\<close>

fun match_d4 :: "string \<Rightarrow> string option" where
  "match_d4 (a # b # c # d # rest) =
     (if is_digit a \<and> is_digit b \<and> is_digit c \<and> is_digit d then Some rest else None)"
| "match_d4 _ = None"

definition re_match_pattern :: "string \<Rightarrow> bool" where
  "re_match_pattern s =
     (case match_d4 s of
        None \<Rightarrow> False
      | Some r \<Rightarrow>
          (case r of
             [] \<Rightarrow> False
           | h # r' \<Rightarrow>
               h = CHR ''-'' \<and>
               (case match_d4 r' of None \<Rightarrow> False | Some t \<Rightarrow> t = [] \<or> t = [CHR 0x0A])))"

text \<open>The check under the period input (lines 599 to 601): it shows an error and does
  nothing else.\<close>

definition periodo_invalido :: "string \<Rightarrow> bool" where
  "periodo_invalido p \<longleftrightarrow> p \<noteq> [] \<and> \<not> re_match_pattern p"

text \<open>The prerequisite of status "Emitido" (lines 655 to 659). The text inputs are
  \<open>str\<close> already, so \<open>str(expediente)\<close> is \<open>expediente\<close>.\<close>

definition puede_emitir :: "widgets \<Rightarrow> bool" where
  "puede_emitir w =
     (let expediente_ok = (py_strip (w_expediente w) \<noteq> []);
          fecha_it_ok = (w_fecha_it w \<noteq> None);
          numero_it_ok = (py_strip (w_numero_it w) \<noteq> [])
      in expediente_ok \<and> fecha_it_ok \<and> numero_it_ok)"

text \<open>\<open>int(cantidad_revisiones or 0)\<close>.\<close>

definition int_or_0 :: "int \<Rightarrow> int" where
  "int_or_0 n = (if n \<noteq> 0 then n else 0)"

text \<open>The changeset of an update (lines 683 to 695).\<close>

definition cambios :: "session \<Rightarrow> widgets \<Rightarrow> pydict" where
  "cambios st w =
     [(''estado'', PStr (w_estado w)),
      (''responsable_institucional'', PStr (resp_sel st)),
      (''cantidad_revisiones'', PInt (int_or_0 (w_cantidad_revisiones w))),
      (''fecha_derivacion'', of_date (w_fecha_derivacion w)),
      (''etapas_revision'', PStr (w_etapa_revision w)),
      (''comentario_adicional_emisor_it'', PStr (w_comentario w)),
      (''expediente'', PStr (w_expediente w)),
      (''fecha_it'', of_date (w_fecha_it w)),
      (''numero_it'', PStr (w_numero_it w)),
      (''fecha_oficio'', of_date (w_fecha_oficio w)),
      (''numero_oficio'', PStr (w_numero_oficio w))]"

text \<open>The record of an insert (lines 702 to 726).\<close>

definition nuevo_pg :: "session \<Rightarrow> widgets \<Rightarrow> pydict" where
  "nuevo_pg st w =
     [(''id_ue'', PStr (py_strip (codigo st))),
      (''anio'', PInt (year_now st)),
      (''fecha_recepcion'', of_date (w_fecha_recepcion w)),
      (''periodo_pei'', PStr (w_periodo w)),
      (''vigencia'', PStr (w_vigencia w)),
      (''tipo_pei'', PStr (w_tipo_pei w)),
      (''articulacion'', of_str (w_articulacion w)),
      (''estado'', PStr (w_estado w)),
      (''responsable_institucional'', PStr (resp_sel st)),
      (''cantidad_revisiones'', PInt (int_or_0 (w_cantidad_revisiones w))),
      (''fecha_derivacion'', of_date (w_fecha_derivacion w)),
      (''etapas_revision'', PStr (w_etapa_revision w)),
      (''comentario_adicional_emisor_it'', PStr (w_comentario w)),
      (''expediente'', PStr (w_expediente w)),
      (''fecha_it'', of_date (w_fecha_it w)),
      (''numero_it'', PStr (w_numero_it w)),
      (''fecha_oficio'', of_date (w_fecha_oficio w)),
      (''numero_oficio'', PStr (w_numero_oficio w)),
      (''created_by'', usuario st)]"

text \<open>What one run of the form ends with: nothing (not submitted), \<open>st.stop()\<close> after
  the validation error, or one call of the gateway.\<close>

datatype action = NoSubmit | Stopped | Update int pydict | Insert pydict

datatype message = FormatoInvalido | AvisoEmitido | NoSePuedeEmitido

text \<open>\<open>if edit_mode and edit_id\<close>: the flag is set and the identifier is there and
  is not 0. The result is the identifier \<open>int(edit_id)\<close> of the update.\<close>

definition editing :: "session \<Rightarrow> int option" where
  "editing st =
     (if edit_mode st then (case edit_id st of None \<Rightarrow> None | Some i \<Rightarrow> if i \<noteq> 0 then Some i else None)
      else None)"

text \<open>The body of the form from the period check to the gateway call (lines 599 to
  728): the messages shown, in order, and the action.\<close>

definition form_pei :: "session \<Rightarrow> widgets \<Rightarrow> bool \<Rightarrow> message list \<times> action" where
  "form_pei st w submitted =
     (let m1 = (if periodo_invalido (w_periodo w) then [FormatoInvalido] else []);
          blocked = (w_estado w = ''Emitido'' \<and> \<not> puede_emitir w);
          m2 = (if blocked then [AvisoEmitido] else [])
      in if submitted
         then (if blocked then (m1 @ m2 @ [NoSePuedeEmitido], Stopped)
               else (case editing st of
                       Some i \<Rightarrow> (m1 @ m2, Update i (cambios st w))
                     | None \<Rightarrow> (m1 @ m2, Insert (nuevo_pg st w))))
         else (m1 @ m2, NoSubmit))"

definition the_frozen_keys :: "string list" where
  "the_frozen_keys = [''fecha_recepcion'', ''periodo_pei'', ''vigencia'', ''tipo_pei'', ''articulacion'']"

section \<open>Example inputs\<close>

definition demo_new :: session where
  "demo_new = \<lparr>edit_mode = False, edit_id = None, codigo = ''23'', resp_sel = ''DNCP'',
                usuario = PNone, year_now = 2026\<rparr>"

definition demo_edit :: session where
  "demo_edit = \<lparr>edit_mode = True, edit_id = Some 7, codigo = ''23'', resp_sel = ''DNCP'',
                 usuario = PNone, year_now = 2026\<rparr>"

definition demo_widgets :: widgets where
  "demo_widgets =
     \<lparr>w_tipo_pei = ''Formulado'',
      w_etapa_revision = ''IT Emitido'',
      w_fecha_recepcion = Some (Date 2024 1 10),
      w_articulacion = Some ''PEDN 2050'',
      w_fecha_derivacion = Some (Date 2024 1 11),
      w_periodo = ''2025-2027'',
      w_cantidad_revisiones = 1,
      w_comentario = [],
      w_vigencia = [CHR ''S'', a_i],
      w_estado = ''En proceso'',
      w_expediente = ''E-1'',
      w_fecha_it = Some (Date 2024 2 1),
      w_fecha_oficio = Some (Date 2024 2 2),
      w_numero_it = ''IT-1'',
      w_numero_oficio = []\<rparr>"

definition no_repr :: "64 word \<Rightarrow> string" where
  "no_repr w = []"

section \<open>The fields of the Record Mapper, one by one\<close>








section \<open>The two trims\<close>



section \<open>Basic facts\<close>

lemma py_strip_Nil [simp]: "py_strip [] = []"
  by (simp add: py_strip_def)

lemma dict_get_set: "dict_get (dict_set k v d) k' = (if k' = k then v else dict_get d k')"
  by (simp add: dict_get_def dict_set_def update_conv')

lemma map_of_dict_set: "map_of (dict_set k v d) = (map_of d)(k \<mapsto> v)"
  by (simp add: dict_set_def update_conv')

lemma dict_get_delete: "dict_get (AList.delete k d) k' = (if k' = k then PNone else dict_get d k')"
  by (simp add: dict_get_def delete_conv')

section \<open>The Form Reconciler\<close>

text \<open>
  C1. Whatever the form's inputs and the session hold, a run of the form that ends in a
  call of the update passes the changeset of lines 683 to 695: its keys are the eleven
  listed, and none of \<open>fecha_recepcion\<close>, \<open>periodo_pei\<close>, \<open>vigencia\<close>, \<open>tipo_pei\<close>,
  \<open>articulacion\<close> is among them.
\<close>

theorem cambios_excludes_frozen:
  "form_pei st w submitted = (ms, Update i cs) \<Longrightarrow>
     cs = cambios st w \<and>
     dict_keys cs = [''estado'', ''responsable_institucional'', ''cantidad_revisiones'',
       ''fecha_derivacion'', ''etapas_revision'', ''comentario_adicional_emisor_it'',
       ''expediente'', ''fecha_it'', ''numero_it'', ''fecha_oficio'', ''numero_oficio''] \<and>
     set the_frozen_keys \<inter> set (dict_keys cs) = {}"
  by (auto simp: form_pei_def Let_def cambios_def dict_keys_def the_frozen_keys_def
           split: if_splits option.splits)

text \<open>The update of record 7 from the example inputs.\<close>

theorem cambios_excludes_frozen_witness:
  "form_pei demo_edit demo_widgets True = ([], Update 7 (cambios demo_edit demo_widgets)) \<and>
   set the_frozen_keys \<inter> set (dict_keys (cambios demo_edit demo_widgets)) = {}"
proof -
  have run: "form_pei demo_edit demo_widgets True = ([], Update 7 (cambios demo_edit demo_widgets))"
    by (simp add: form_pei_def demo_edit_def demo_widgets_def editing_def periodo_invalido_def
          re_match_pattern_def is_digit_def Let_def)
  with cambios_excludes_frozen [OF run] show ?thesis by blast
qed

text \<open>
  C2. The period check only shows a message. A submitted period "25-27" is flagged
  (and "2025-2027" is not), yet the run goes on to the insert with \<open>periodo_pei\<close>
  bound to "25-27", and \<open>insert_it_pei\<close> executes its statement with that parameter:
  the malformed period is persisted, where the claim has the submission fail.
\<close>

theorem malformed_period_reaches_insert:
  "periodo_invalido ''25-27'' \<and> \<not> periodo_invalido ''2025-2027'' \<and>
   form_pei demo_new (demo_widgets\<lparr>w_periodo := ''25-27''\<rparr>) True =
     ([FormatoInvalido], Insert (nuevo_pg demo_new (demo_widgets\<lparr>w_periodo := ''25-27''\<rparr>))) \<and>
   (\<forall>fr. \<exists>cl pl ps. insert_it_pei fr (nuevo_pg demo_new (demo_widgets\<lparr>w_periodo := ''25-27''\<rparr>)) =
       Inr (InsertInto cl pl ps) \<and> dict_get ps ''periodo_pei'' = PStr ''25-27'')"
  by (simp add: periodo_invalido_def re_match_pattern_def is_digit_def form_pei_def Let_def
        demo_new_def demo_widgets_def editing_def insert_it_pei_def missing_def required_def
        nuevo_pg_def dict_get_def dict_set_def truthy_def of_date_def of_str_def py_strip_def is_space_def)

text \<open>
  C3, as amended. With status "Emitido", a submission stops before any gateway call when
  the expediente or the numero_it is empty once trimmed (the empty string in particular)
  or the fecha_it is absent; when both are non-empty once trimmed and the date is there,
  it goes on to the gateway call: the update in edit mode, the insert otherwise.
\<close>

theorem emitido_requires_trimmed_fields:
  "w_estado w = ''Emitido'' \<Longrightarrow>
     ((py_strip (w_expediente w) = [] \<or> py_strip (w_numero_it w) = [] \<or> w_fecha_it w = None)
        \<longrightarrow> snd (form_pei st w True) = Stopped) \<and>
     ((w_expediente w = [] \<or> w_numero_it w = []) \<longrightarrow> snd (form_pei st w True) = Stopped) \<and>
     ((py_strip (w_expediente w) \<noteq> [] \<and> py_strip (w_numero_it w) \<noteq> [] \<and> w_fecha_it w \<noteq> None)
        \<longrightarrow> snd (form_pei st w True) =
              (case editing st of Some i \<Rightarrow> Update i (cambios st w) | None \<Rightarrow> Insert (nuevo_pg st w)))"
  by (auto simp: form_pei_def puede_emitir_def Let_def split: option.splits)

text \<open>Status "Emitido" with an empty numero_it stops; with the three fields filled it
  reaches the insert.\<close>

theorem emitido_requires_trimmed_fields_witness:
  "snd (form_pei demo_new (demo_widgets\<lparr>w_estado := ''Emitido'', w_numero_it := []\<rparr>) True) = Stopped \<and>
   snd (form_pei demo_new (demo_widgets\<lparr>w_estado := ''Emitido''\<rparr>) True) =
     Insert (nuevo_pg demo_new (demo_widgets\<lparr>w_estado := ''Emitido''\<rparr>))"
proof -
  let ?a = "demo_widgets\<lparr>w_estado := ''Emitido'', w_numero_it := []\<rparr>"
  let ?b = "demo_widgets\<lparr>w_estado := ''Emitido''\<rparr>"
  have a: "w_estado ?a = ''Emitido''" and b: "w_estado ?b = ''Emitido''"
    by simp_all
  have filled: "py_strip (w_expediente ?b) \<noteq> [] \<and> py_strip (w_numero_it ?b) \<noteq> [] \<and> w_fecha_it ?b \<noteq> None"
    by (simp add: demo_widgets_def py_strip_def is_space_def)
  have new: "editing demo_new = None"
    by (simp add: editing_def demo_new_def)
  from emitido_requires_trimmed_fields [OF a, of demo_new]
  have "snd (form_pei demo_new ?a True) = Stopped" by simp
  moreover from emitido_requires_trimmed_fields [OF b, of demo_new] filled new
  have "snd (form_pei demo_new ?b True) = Insert (nuevo_pg demo_new ?b)" by simp
  ultimately show ?thesis by simp
qed

text \<open>The claim as stated fails for an expediente of one space: the three fields are
  non-empty and present, and the submission stops.\<close>

theorem emitido_blank_expediente_counterexample:
  "w_expediente (demo_widgets\<lparr>w_estado := ''Emitido'', w_expediente := '' ''\<rparr>) \<noteq> [] \<and>
   w_numero_it (demo_widgets\<lparr>w_estado := ''Emitido'', w_expediente := '' ''\<rparr>) \<noteq> [] \<and>
   w_fecha_it (demo_widgets\<lparr>w_estado := ''Emitido'', w_expediente := '' ''\<rparr>) \<noteq> None \<and>
   form_pei demo_new (demo_widgets\<lparr>w_estado := ''Emitido'', w_expediente := '' ''\<rparr>) True =
     ([AvisoEmitido, NoSePuedeEmitido], Stopped)"
  by (simp add: demo_widgets_def form_pei_def puede_emitir_def periodo_invalido_def
        re_match_pattern_def is_digit_def py_strip_def is_space_def Let_def)

section \<open>The History Store Gateway\<close>

text \<open>
  C4, as amended. \<open>insert_it_pei\<close> raises its \<open>ValueError\<close>, and executes nothing, when
  \<open>id_ue\<close> or \<open>fecha_recepcion\<close> is absent or falsy. When both are truthy and \<open>id_ue\<close>
  is not blank, it executes one INSERT: every supplied key is a column, \<open>id_ue\<close> is bound
  to its trimmed text, \<open>anio\<close> and \<open>cantidad_revisiones\<close> to what \<open>_to_int\<close> makes of
  them, and every other field to the value supplied.
\<close>

theorem insert_it_pei_required:
  "((\<not> truthy (dict_get rcd ''id_ue'') \<or> \<not> truthy (dict_get rcd ''fecha_recepcion'')) \<longrightarrow>
      insert_it_pei fr rcd =
        Inl (ValueError (''Faltan campos obligatorios: '' @ join '', '' (missing rcd)))) \<and>
   ((map_of rcd ''id_ue'' = None \<or> map_of rcd ''fecha_recepcion'' = None) \<longrightarrow>
      (\<exists>msg. insert_it_pei fr rcd = Inl (ValueError msg))) \<and>
   ((truthy (dict_get rcd ''id_ue'') \<and> truthy (dict_get rcd ''fecha_recepcion'') \<and>
     py_strip (py_str fr (dict_get rcd ''id_ue'')) \<noteq> []) \<longrightarrow>
      (\<exists>ps. insert_it_pei fr rcd =
              Inr (InsertInto (join '', '' (dict_keys ps))
                     (join '', '' (map (\<lambda>c. CHR '':'' # c) (dict_keys ps))) ps) \<and>
            set (dict_keys rcd) \<subseteq> set (dict_keys ps) \<and>
            map_of ps = (map_of rcd)
              (''id_ue'' \<mapsto> PStr (py_strip (py_str fr (dict_get rcd ''id_ue''))),
               ''anio'' \<mapsto> of_int_opt (to_int (dict_get rcd ''anio'')),
               ''cantidad_revisiones'' \<mapsto> of_int_opt (to_int (dict_get rcd ''cantidad_revisiones'')))))"
proof -
  have m: "missing rcd \<noteq> [] \<longleftrightarrow>
      \<not> truthy (dict_get rcd ''id_ue'') \<or> \<not> truthy (dict_get rcd ''fecha_recepcion'')"
    by (simp add: missing_def required_def)
  have absent: "map_of rcd k = None \<Longrightarrow> \<not> truthy (dict_get rcd k)" for k
    by (simp add: dict_get_def truthy_def)
  have clean: "truthy v \<Longrightarrow> py_strip (py_str fr v) \<noteq> [] \<Longrightarrow>
      of_str (clean_str fr v) = PStr (py_strip (py_str fr v))" for v
    by (auto simp: clean_str_def of_str_def truthy_def Let_def)
  have keys: "set (dict_keys d) \<subseteq> set (dict_keys (dict_set k v d))" for k v d
    by (auto simp: dict_keys_def dict_set_def update_keys)
  have keys3: "set (dict_keys rcd) \<subseteq> set (dict_keys (dict_set k3 v3 (dict_set k2 v2 (dict_set k1 v1 rcd))))"
    for k1 v1 k2 v2 k3 v3
    using keys [of rcd k1 v1] keys [of "dict_set k1 v1 rcd" k2 v2]
      keys [of "dict_set k2 v2 (dict_set k1 v1 rcd)" k3 v3]
    by blast
  show ?thesis
    using m absent [of "''id_ue''"] absent [of "''fecha_recepcion''"] keys3
    by (auto simp: insert_it_pei_def Let_def dict_get_set map_of_dict_set clean)
qed

text \<open>A record with neither required field, and one with both.\<close>

theorem insert_it_pei_required_witness:
  "insert_it_pei no_repr [(''anio'', PInt 2024)] =
     Inl (ValueError ''Faltan campos obligatorios: id_ue, fecha_recepcion'') \<and>
   (\<exists>ps. insert_it_pei no_repr [(''id_ue'', PStr '' 23''), (''fecha_recepcion'', PDate (Date 2024 1 10))] =
       Inr (InsertInto (join '', '' (dict_keys ps))
                     (join '', '' (map (\<lambda>c. CHR '':'' # c) (dict_keys ps))) ps) \<and>
       map_of ps ''id_ue'' = Some (PStr ''23'') \<and>
       map_of ps ''fecha_recepcion'' = Some (PDate (Date 2024 1 10)))"
proof -
  let ?r = "[(''id_ue'', PStr '' 23''), (''fecha_recepcion'', PDate (Date 2024 1 10))]"
  have t: "truthy (dict_get ?r ''id_ue'') \<and> truthy (dict_get ?r ''fecha_recepcion'')"
    by (simp add: dict_get_def truthy_def)
  have c: "py_strip (py_str no_repr (dict_get ?r ''id_ue'')) = ''23''"
    by (simp add: dict_get_def py_str_def py_strip_def is_space_def)
  have f: "\<not> truthy (dict_get [(''anio'', PInt 2024)] ''id_ue'')"
    by (simp add: dict_get_def truthy_def)
  have ms: "missing [(''anio'', PInt 2024)] = [''id_ue'', ''fecha_recepcion'']"
    by (simp add: missing_def required_def dict_get_def truthy_def)
  from insert_it_pei_required [of "[(''anio'', PInt 2024)]" no_repr] f ms
  have 1: "insert_it_pei no_repr [(''anio'', PInt 2024)] =
     Inl (ValueError ''Faltan campos obligatorios: id_ue, fecha_recepcion'')"
    by simp
  have ne: "py_strip (py_str no_repr (dict_get ?r ''id_ue'')) \<noteq> []" by (simp only: c) simp
  from insert_it_pei_required [of ?r no_repr] t ne
  obtain ps where ps: "insert_it_pei no_repr ?r =
       Inr (InsertInto (join '', '' (dict_keys ps))
                     (join '', '' (map (\<lambda>c. CHR '':'' # c) (dict_keys ps))) ps)"
     and mp: "map_of ps = (map_of ?r)
              (''id_ue'' \<mapsto> PStr (py_strip (py_str no_repr (dict_get ?r ''id_ue''))),
               ''anio'' \<mapsto> of_int_opt (to_int (dict_get ?r ''anio'')),
               ''cantidad_revisiones'' \<mapsto> of_int_opt (to_int (dict_get ?r ''cantidad_revisiones'')))"
    by blast
  have "map_of ps ''id_ue'' = Some (PStr ''23'') \<and>
       map_of ps ''fecha_recepcion'' = Some (PDate (Date 2024 1 10))"
    by (simp only: mp c) simp
  with ps 1 show ?thesis by blast
qed

text \<open>The claim as stated fails for a record that has both keys, \<open>id_ue\<close> bound to the
  empty string: both are present and the insert raises.\<close>

theorem insert_it_pei_present_counterexample:
  "\<forall>fr. map_of [(''id_ue'', PStr []), (''fecha_recepcion'', PDate (Date 2024 1 10))] ''id_ue'' \<noteq> None \<and>
     map_of [(''id_ue'', PStr []), (''fecha_recepcion'', PDate (Date 2024 1 10))] ''fecha_recepcion'' \<noteq> None \<and>
     insert_it_pei fr [(''id_ue'', PStr []), (''fecha_recepcion'', PDate (Date 2024 1 10))] =
       Inl (ValueError ''Faltan campos obligatorios: id_ue'')"
  by (simp add: insert_it_pei_def missing_def required_def dict_get_def truthy_def)

text \<open>
  C10. The required-field check tests truthiness: a record in which a required key is
  bound to a falsy value (the empty string, \<open>None\<close> and 0 are falsy) has that key among
  the missing ones, raises the missing-fields error, and gets the very result of the
  record with the key removed.
\<close>

theorem insert_it_pei_falsy_as_absent:
  "k \<in> set required \<Longrightarrow> map_of rcd k = Some v \<Longrightarrow> \<not> truthy v \<Longrightarrow>
     k \<in> set (missing rcd) \<and>
     insert_it_pei fr rcd =
       Inl (ValueError (''Faltan campos obligatorios: '' @ join '', '' (missing rcd))) \<and>
     insert_it_pei fr (AList.delete k rcd) = insert_it_pei fr rcd \<and>
     \<not> truthy (PStr []) \<and> \<not> truthy PNone \<and> \<not> truthy (PInt 0)"
proof -
  assume k: "k \<in> set required" and v: "map_of rcd k = Some v" and f: "\<not> truthy v"
  have g: "dict_get rcd k = v" using v by (simp add: dict_get_def)
  have same: "truthy (dict_get (AList.delete k rcd) k') = truthy (dict_get rcd k')" for k'
    using g f by (simp add: dict_get_delete truthy_def)
  have ms: "missing (AList.delete k rcd) = missing rcd"
    by (simp add: missing_def same)
  have mem: "k \<in> set (missing rcd)"
    using k g f by (simp add: missing_def)
  then have ne: "missing rcd \<noteq> []" by auto
  show ?thesis
    using mem ne ms by (simp add: insert_it_pei_def truthy_def)
qed

text \<open>\<open>fecha_recepcion\<close> bound to \<open>None\<close>, against the record without it.\<close>

theorem insert_it_pei_falsy_as_absent_witness:
  "insert_it_pei no_repr [(''id_ue'', PStr ''23''), (''fecha_recepcion'', PNone)] =
     Inl (ValueError ''Faltan campos obligatorios: fecha_recepcion'') \<and>
   insert_it_pei no_repr [(''id_ue'', PStr ''23'')] =
     insert_it_pei no_repr [(''id_ue'', PStr ''23''), (''fecha_recepcion'', PNone)]"
proof -
  let ?r = "[(''id_ue'', PStr ''23''), (''fecha_recepcion'', PNone)]"
  have k: "''fecha_recepcion'' \<in> set required" by (simp add: required_def)
  have v: "map_of ?r ''fecha_recepcion'' = Some PNone" by simp
  have f: "\<not> truthy PNone" by (simp add: truthy_def)
  have ms: "missing ?r = [''fecha_recepcion'']"
    by (simp add: missing_def required_def dict_get_def truthy_def)
  have d: "AList.delete ''fecha_recepcion'' ?r = [(''id_ue'', PStr ''23'')]"
    by (simp add: AList.delete_eq)
  from insert_it_pei_falsy_as_absent [OF k v f, of no_repr] ms d show ?thesis by simp
qed

text \<open>
  C5. The update fails with \<open>NotFoundError\<close> when no row has the identifier. Otherwise
  the row with that identifier takes the value of the changeset at every key the
  changeset has, keeps its own value at every other key, and no other row changes.
\<close>

theorem update_it_pei_spec:
  "(tbl i = None \<longrightarrow> update_it_pei i cs tbl = Inl NotFoundError) \<and>
   (\<forall>r. tbl i = Some r \<longrightarrow>
      (\<exists>tbl' r'. update_it_pei i cs tbl = Inr tbl' \<and> tbl' i = Some r' \<and>
         (\<forall>k v. map_of cs k = Some v \<longrightarrow> r' k = Some v) \<and>
         (\<forall>k. map_of cs k = None \<longrightarrow> r' k = r k) \<and>
         (\<forall>j. j \<noteq> i \<longrightarrow> tbl' j = tbl j)))"
  by (auto simp: update_it_pei_def map_add_def split: option.splits)

text \<open>A table with the single row 7: updating 8 fails, updating 7 changes
  \<open>estado\<close> and keeps \<open>vigencia\<close>.\<close>

theorem update_it_pei_spec_witness:
  "update_it_pei 8 [(''estado'', PStr ''Emitido'')] [7 \<mapsto> [''estado'' \<mapsto> PStr ''En proceso'', ''vigencia'' \<mapsto> PStr ''No'']] = Inl NotFoundError \<and>
   (\<exists>tbl' r'. update_it_pei 7 [(''estado'', PStr ''Emitido'')] [7 \<mapsto> [''estado'' \<mapsto> PStr ''En proceso'', ''vigencia'' \<mapsto> PStr ''No'']] = Inr tbl' \<and>
      tbl' 7 = Some r' \<and> r' ''estado'' = Some (PStr ''Emitido'') \<and> r' ''vigencia'' = Some (PStr ''No''))"
proof -
  let ?row = "[''estado'' \<mapsto> PStr ''En proceso'', ''vigencia'' \<mapsto> PStr ''No'']"
  let ?t = "[(7::int) \<mapsto> ?row]"
  let ?cs = "[(''estado'', PStr ''Emitido'')]"
  have n: "?t 8 = None" and s: "?t 7 = Some ?row" by simp_all
  from update_it_pei_spec [of ?t 8 ?cs] n
  have 1: "update_it_pei 8 ?cs ?t = Inl NotFoundError" by blast
  from update_it_pei_spec [of ?t 7 ?cs] s
  obtain tbl' r' where u: "update_it_pei 7 ?cs ?t = Inr tbl'" "tbl' 7 = Some r'"
    and hit: "\<forall>k v. map_of ?cs k = Some v \<longrightarrow> r' k = Some v"
    and miss: "\<forall>k. map_of ?cs k = None \<longrightarrow> r' k = ?row k"
    by blast
  have "r' ''estado'' = Some (PStr ''Emitido'')" using hit by simp
  moreover have "r' ''vigencia'' = Some (PStr ''No'')" using miss [rule_format, of "''vigencia''"] by simp
  ultimately show ?thesis using 1 u by blast
qed

section \<open>Trimming\<close>










section \<open>The Field Normalizer\<close>






lemma sub_ws_spaces: "c \<in> set (sub_ws b s) \<Longrightarrow> is_space c \<Longrightarrow> c = CHR '' ''"
  by (induction b s rule: sub_ws.induct) (auto split: if_splits)


lemma lower_space [simp]: "lower_char CHR '' '' = CHR '' ''"
  by (simp add: lower_char_def)





section \<open>The Record Mapper\<close>











section \<open>Rounding to a float\<close>

lemma round_half_even_of_int [simp]: "round_half_even (of_int k) = k"
  by (simp add: round_half_even_def)

lemma bitlen_one [simp]: "bitlen 1 = 1"
  using bitlen_twopow_add_eq [of 0 0] by simp

lemma bitlen_pos: "0 < n \<Longrightarrow> 1 \<le> bitlen n"
  using bitlen_eq_zero_iff [of n] bitlen_nonneg [of n] by linarith




lemma two_powi_bitlen_gt:
  assumes "0 < (p::int)"
  shows "(of_int p :: rat) < 2 powi (bitlen p)"
proof -
  have "p < 2 ^ nat (bitlen p)" using bitlen_bounds [OF assms] by simp
  then have "(of_int p :: rat) < of_int (2 ^ nat (bitlen p))" by (simp only: of_int_less_iff)
  then show ?thesis using bitlen_nonneg [of p] by (simp add: power_int_def)
qed

lemma two_powi_bitlen_le:
  assumes "0 < (q::int)"
  shows "(2::rat) powi (bitlen q - 1) \<le> of_int q"
proof -
  have "2 ^ nat (bitlen q - 1) \<le> q" using bitlen_bounds [OF assms] by simp
  then have "(of_int (2 ^ nat (bitlen q - 1)) :: rat) \<le> of_int q" by (simp only: of_int_le_iff)
  then show ?thesis using bitlen_pos [OF assms] by (simp add: power_int_def)
qed


text \<open>With the bound above, \<open>ilog2 a\<close> is the binary exponent of \<open>a\<close>.\<close>

lemma ilog2_lower:
  assumes "0 < a"
  shows "2 powi (ilog2 a) \<le> a"
proof -
  obtain p q where pq: "quotient_of a = (p, q)" by (cases "quotient_of a")
  then have q: "0 < q" by (rule quotient_of_denom_pos)
  have a: "a = of_int p / of_int q" using pq by (rule quotient_of_div)
  have p: "0 < p"
  proof (rule ccontr)
    assume "\<not> 0 < p"
    then have "(of_int p :: rat) \<le> 0" by simp
    with q have "of_int p / (of_int q :: rat) \<le> 0" by (simp add: divide_le_0_iff)
    with a assms show False by simp
  qed
  have 1: "(2::rat) powi (bitlen p - 1) \<le> of_int p" using p by (rule two_powi_bitlen_le)
  have 2: "(of_int q :: rat) < 2 powi (bitlen q)" using q by (rule two_powi_bitlen_gt)
  have 3: "(0::rat) < of_int q" using q by simp
  have "(2::rat) powi (bitlen p - 1) / 2 powi (bitlen q) \<le> of_int p / of_int q"
    using p 1 2 3 by (intro frac_le) simp_all
  moreover have "(2::rat) powi (bitlen p - 1) / 2 powi (bitlen q) = 2 powi (bitlen p - bitlen q - 1)"
    by (simp add: power_int_diff [symmetric] algebra_simps)
  ultimately have lo: "2 powi (bitlen p - bitlen q - 1) \<le> a" using a by simp
  show ?thesis
  proof (cases "2 powi (bitlen p - bitlen q) \<le> a")
    case True
    then show ?thesis by (simp add: ilog2_def pq)
  next
    case False
    then have "ilog2 a = bitlen p - bitlen q - 1" by (simp add: ilog2_def pq)
    with lo show ?thesis by simp
  qed
qed






lemma trunc_int_of_int [simp]: "trunc_int (of_int n) = n"
  by (simp add: trunc_int_def)





section \<open>Reading numbers back\<close>

subsection \<open>Decimal digits\<close>







subsection \<open>Scanning digit strings\<close>














subsection \<open>Dates are no numbers\<close>









subsection \<open>Every finite float truncates to an integer the rounding leaves alone\<close>





section \<open>The code normalizer\<close>








end
